theory Spec2Isabelle
  imports Main
begin

section \<open>Python values and builtins used by \<open>scripts/finetune.py\<close>\<close>

text \<open>
  The exceptions the script itself can raise. Failures of the external collaborators
  (tokenizer, model, trainer, dataset producer) are outside the script and are not
  modelled: their calls are recorded as events that succeed.
\<close>

datatype error =
    ValueError
  | EOFError
  | IndexError
  | UnboundLocalError string
  | AttributeError
  | KeyboardInterrupt

text \<open>
  Values a YAML document or a command-line override can carry, as far as
  \<open>load_cfg\<close> distinguishes them (\<open>isinstance(v, bool)\<close>, \<open>bool(v)\<close>).
\<close>

datatype pyval =
    PNone
  | PBool bool
  | PInt int
  | PStr string
  | PList "pyval list"

text \<open>Python's \<open>bool(v)\<close>.\<close>

fun truthy :: "pyval \<Rightarrow> bool" where
  "truthy PNone = False"
| "truthy (PBool b) = b"
| "truthy (PInt i) = (i \<noteq> 0)"
| "truthy (PStr s) = (s \<noteq> [])"
| "truthy (PList xs) = (xs \<noteq> [])"

text \<open>\<open>isinstance(v, bool)\<close>: an \<open>int\<close> is not a \<open>bool\<close>.\<close>

fun is_bool :: "pyval \<Rightarrow> bool" where
  "is_bool (PBool b) = True"
| "is_bool v = False"

subsection \<open>\<open>int(s)\<close> on a string\<close>

text \<open>
  A \<open>char\<close> is a code point below 256; strings with code points above that are
  not modelled. On such a string \<open>int(s)\<close> strips surrounding whitespace, accepts
  one sign, then decimal digits with single underscores between digits; anything else
  raises \<open>ValueError\<close> (\<open>None\<close> here). The whitespace \<open>int\<close> strips is the
  space, the controls 0x09 to 0x0D, and of the code points above ASCII the two that are
  Unicode whitespace, 0x85 and 0xA0. The separators 0x1C to 0x1F are whitespace for
  \<open>str.isspace\<close> but not for \<open>int\<close>. Below 256 the only decimal digits are the
  ASCII ones.
\<close>

definition is_space :: "char \<Rightarrow> bool" where
  "is_space c =
     (c \<in> set [CHR '' '', CHR 0x09, CHR 0x0A, CHR 0x0B, CHR 0x0C, CHR 0x0D,
                CHR 0x85, CHR 0xA0])"

definition digit_of :: "char \<Rightarrow> nat option" where
  "digit_of c =
     (let n = (of_char c :: nat) in if 48 \<le> n \<and> n \<le> 57 then Some (n - 48) else None)"

text \<open>The digits after the first one: \<open>acc\<close> is the value read so far.\<close>

fun more_digits :: "nat \<Rightarrow> string \<Rightarrow> nat option" where
  "more_digits acc [] = Some acc"
| "more_digits acc (c # cs) =
     (case digit_of c of
        Some d \<Rightarrow> more_digits (10 * acc + d) cs
      | None \<Rightarrow>
          (if c = CHR ''_'' then
             (case cs of
                [] \<Rightarrow> None
              | c' # cs' \<Rightarrow>
                  (case digit_of c' of
                     Some d \<Rightarrow> more_digits (10 * acc + d) cs'
                   | None \<Rightarrow> None))
           else None))"

definition digits_value :: "string \<Rightarrow> nat option" where
  "digits_value s =
     (case s of
        [] \<Rightarrow> None
      | c # cs \<Rightarrow> (case digit_of c of Some d \<Rightarrow> more_digits d cs | None \<Rightarrow> None))"

definition strip :: "string \<Rightarrow> string" where
  "strip s = rev (dropWhile is_space (rev (dropWhile is_space s)))"

definition py_int :: "string \<Rightarrow> int option" where
  "py_int s =
     (case strip s of
        [] \<Rightarrow> None
      | c # cs \<Rightarrow>
          (if c = CHR ''-'' then map_option (\<lambda>n. - int n) (digits_value cs)
           else if c = CHR ''+'' then map_option int (digits_value cs)
           else map_option int (digits_value (c # cs))))"

subsection \<open>\<open>str(n)\<close> for a non-negative integer\<close>

definition digit_char :: "nat \<Rightarrow> char" where
  "digit_char d = ''0123456789'' ! d"

function str_nat :: "nat \<Rightarrow> string" where
  "str_nat n = (if n < 10 then [digit_char n] else str_nat (n div 10) @ [digit_char (n mod 10)])"
  by pat_completeness auto
termination
  by (relation "measure id") auto

declare str_nat.simps [simp del]

subsection \<open>\<open>s.split(sep)\<close> with a one-character separator\<close>

fun split_on :: "char \<Rightarrow> string \<Rightarrow> string list" where
  "split_on sep [] = [[]]"
| "split_on sep (c # cs) =
     (if c = sep then [] # split_on sep cs
      else (c # hd (split_on sep cs)) # tl (split_on sep cs))"

section \<open>\<open>choose_config\<close>\<close>

text \<open>
  What \<open>choose_config\<close> does to the terminal: \<open>print\<close> a line, or call
  \<open>input(prompt)\<close>.
\<close>

datatype io = Print string | Input string

text \<open>Prefix a result with the effects that happened before it.\<close>

definition after :: "'e list \<Rightarrow> 'e list \<times> 'r \<Rightarrow> 'e list \<times> 'r" where
  "after pre r = (pre @ fst r, snd r)"

text \<open>
  The \<open>while chosen_file is None\<close> loop. The operator's answers are the lines still
  on standard input; \<open>input\<close> at end of input raises \<open>EOFError\<close>, which the loop does
  not catch. \<open>int\<close> failing is caught and the loop asks again.
\<close>

fun choose_loop :: "string list \<Rightarrow> string list \<Rightarrow> io list \<times> (error + string)" where
  "choose_loop yaml_files [] = ([Input ''Enter the number of your choice: ''], Inl EOFError)"
| "choose_loop yaml_files (line # rest) =
     (case py_int line of
        None \<Rightarrow>
          after [Input ''Enter the number of your choice: '',
                 Print ''Invalid input. Please enter a number.'']
            (choose_loop yaml_files rest)
      | Some choice \<Rightarrow>
          (if 1 \<le> choice \<and> choice \<le> int (length yaml_files) then
             ([Input ''Enter the number of your choice: ''],
              Inr (yaml_files ! nat (choice - 1)))
           else
             after [Input ''Enter the number of your choice: '',
                    Print ''Invalid choice. Please choose a number from the list.'']
               (choose_loop yaml_files rest)))"

text \<open>
  The value bound to \<open>config\<close> in \<open>load_cfg\<close> and to \<open>path\<close> in
  \<open>choose_config\<close>: a \<open>pathlib.Path\<close> object (the default
  \<open>Path("examples/")\<close>), or a plain \<open>str\<close>, which is what \<open>fire.Fire(do_train)\<close>
  hands over for a path typed on the command line. Both carry the text of the path.
\<close>

datatype path_arg = PathObject string | StrObject string

fun path_text :: "path_arg \<Rightarrow> string" where
  "path_text (PathObject p) = p"
| "path_text (StrObject s) = s"

text \<open>
  The file system as the two functions read it: \<open>Path(p).is_dir()\<close>, and the result
  of \<open>Path(p).glob("*.yml")\<close> in the order the file system yields it.
\<close>

record file_system =
  is_dir :: "string \<Rightarrow> bool"
  glob_yml :: "string \<Rightarrow> string list"

text \<open>
  \<open>choose_config(path)\<close>. Its first statement calls \<open>path.glob\<close>: a \<open>Path\<close> has
  that method, a \<open>str\<close> has not and the call raises \<open>AttributeError\<close>. \<open>stdin\<close> is
  the lines the operator will type. The result is the text of the chosen \<open>Path\<close>.
\<close>

definition choose_config ::
  "file_system \<Rightarrow> path_arg \<Rightarrow> string list \<Rightarrow> io list \<times> (error + string)" where
  "choose_config fs path stdin =
     (case path of
        StrObject s \<Rightarrow> ([], Inl AttributeError)
      | PathObject p \<Rightarrow>
          (let yaml_files = glob_yml fs p in
           if yaml_files = [] then ([], Inl ValueError)
           else if length yaml_files = 1 then
             ([Print (''Using default YAML file '' @ [CHR 0x27] @ yaml_files ! 0 @ [CHR 0x27])],
              Inr (yaml_files ! 0))
           else
             after
               (Print ''Choose a YAML file:'' #
                map (\<lambda>(idx, file). Print (str_nat (idx + 1) @ ''. '' @ file))
                  (zip [0 ..< length yaml_files] yaml_files))
               (choose_loop yaml_files stdin)))"

section \<open>\<open>load_cfg\<close>\<close>

subsection \<open>Resolving the configuration source\<close>

text \<open>
  Lines 315 and 316: the value of \<open>config\<close> that \<open>open\<close> receives. The test wraps
  \<open>config\<close> in \<open>Path\<close>; the call passes \<open>config\<close> as it came in.
\<close>

definition load_cfg_config ::
  "file_system \<Rightarrow> path_arg \<Rightarrow> string list \<Rightarrow> io list \<times> (error + path_arg)" where
  "load_cfg_config fs config stdin =
     (if is_dir fs (path_text config) then
        (case choose_config fs config stdin of
           (out, Inl e) \<Rightarrow> (out, Inl e)
         | (out, Inr file) \<Rightarrow> (out, Inr (PathObject file)))
      else ([], Inr config))"

text \<open>A directory \<open>configs\<close> holding one, or two, YAML files.\<close>

definition one_yml_dir :: file_system where
  "one_yml_dir =
     \<lparr>is_dir = (\<lambda>p. p = ''configs/''),
      glob_yml = (\<lambda>p. if p = ''configs/'' then [''configs/a.yml''] else [])\<rparr>"

definition two_yml_dir :: file_system where
  "two_yml_dir =
     \<lparr>is_dir = (\<lambda>p. p = ''configs/''),
      glob_yml = (\<lambda>p. if p = ''configs/'' then [''configs/a.yml'', ''configs/b.yml''] else [])\<rparr>"

subsection \<open>Command-line overrides\<close>

text \<open>
  \<open>DictDefault\<close> (defined outside this file) is a dictionary whose missing keys read
  as \<open>None\<close>: the script reads \<open>cfg.strict\<close> and \<open>cfg[k]\<close> for keys that may be
  absent.
\<close>

type_synonym DictDefault = "string \<rightharpoonup> pyval"

definition cfg_get :: "DictDefault \<Rightarrow> string \<Rightarrow> pyval" where
  "cfg_get cfg k = (case cfg k of None \<Rightarrow> PNone | Some v \<Rightarrow> v)"

definition non_strict :: "DictDefault \<Rightarrow> bool" where
  "non_strict cfg = (\<not> truthy (cfg_get cfg ''strict''))"

text \<open>
  One turn of \<open>for k, _ in kwargs.items()\<close>. \<open>cfg_keys\<close> is a live view of the keys
  of \<open>cfg\<close>, so the membership test reads the dictionary as it is at that turn.
\<close>

definition apply_override :: "DictDefault \<Rightarrow> string \<times> pyval \<Rightarrow> DictDefault" where
  "apply_override cfg kv =
     (if fst kv \<in> dom cfg \<or> non_strict cfg then
        (if is_bool (cfg_get cfg (fst kv)) then cfg(fst kv \<mapsto> PBool (truthy (snd kv)))
         else cfg(fst kv \<mapsto> snd kv))
      else cfg)"

fun apply_overrides :: "DictDefault \<Rightarrow> (string \<times> pyval) list \<Rightarrow> DictDefault" where
  "apply_overrides cfg [] = cfg"
| "apply_overrides cfg (kv # kwargs) = apply_overrides (apply_override cfg kv) kwargs"

section \<open>\<open>train\<close>\<close>

subsection \<open>Inputs\<close>

text \<open>The dataclass \<open>TrainerCliArgs\<close>.\<close>

record TrainerCliArgs =
  debug :: bool
  inference :: bool
  merge_lora :: bool
  prepare_ds_only :: bool
  prompter :: "string option"
  shard :: bool

text \<open>
  The options \<open>train\<close> reads from \<open>cfg\<close>, each typed by the test \<open>train\<close> makes
  on it: an option only tested for truth is a \<open>bool\<close>; \<open>adapter\<close> is compared with
  \<open>None\<close> and with \<open>"lora"\<close>; \<open>save_safetensors\<close> is tested with \<open>is True\<close>;
  \<open>resume_from_checkpoint\<close> with \<open>is None\<close>; \<open>local_rank\<close> with \<open>== 0\<close>;
  \<open>relora_steps\<close> is a step count or \<open>None\<close>; \<open>fsdp\<close> a list of options, empty
  when unset. The output directory itself is a fixed place, see \<open>location\<close>.
\<close>

record run_cfg =
  cfg_debug :: bool
  adapter :: "string option"
  local_rank :: int
  save_safetensors :: "bool option"
  resume_from_checkpoint :: "string option"
  auto_resume_from_checkpoints :: bool
  flash_optimum :: bool
  relora_steps :: "int option"
  load_in_4bit :: bool
  load_in_8bit :: bool
  fsdp :: "string list"

text \<open>
  A dataset is the list of its examples. \<open>prepare_dataset\<close> returns the training
  split, the evaluation split and the total number of steps.
\<close>

type_synonym dataset = "nat list"
type_synonym dataset_bundle = "dataset \<times> dataset \<times> nat"

text \<open>
  What the run finds around it: the result of \<open>prepare_dataset\<close>; the raw draws of
  the random generator (\<open>rand i\<close> feeds the \<open>i\<close>-th call of \<open>randrange\<close>); whether
  \<open>load_model\<close> returned a \<open>peft_config\<close>; the result of
  \<open>Path(cfg.output_dir).glob("checkpoint-*")\<close> as strings, in scan order; whether
  the output directory exists; whether \<open>torch.compile\<close> applies (torch 2 or later,
  not on win32); whether SIGINT arrives during the blocking \<open>trainer.train\<close> call.
\<close>

record env =
  prepared :: dataset_bundle
  rand :: "nat \<Rightarrow> nat"
  peft_config :: bool
  checkpoints :: "string list"
  output_dir_is_dir :: bool
  torch_compile :: bool
  sigint :: bool

subsection \<open>Effects\<close>

text \<open>\<open>cfg.output_dir\<close>, or its \<open>merged\<close> subdirectory.\<close>

datatype location = OutputDir | Merged

text \<open>
  The calls \<open>train\<close> makes on its collaborators, in order. \<open>LoadModel b\<close> is
  \<open>load_model(cfg, tokenizer, inference=b)\<close>; \<open>SaveModel d s\<close> is
  \<open>model.save_pretrained(d, safe_serialization=s)\<close>; \<open>TrainerTrain r f\<close> is
  \<open>trainer.train(resume_from_checkpoint=r)\<close>, inside the flash kernel context when
  \<open>f\<close>. Log lines are left out.
\<close>

datatype event =
    LoadTokenizer
  | PrepareDataset
  | CheckDatasetLabels dataset
  | LoadModel bool
  | MergeAndUnload
  | ToFloat16
  | SaveModel location bool
  | SaveTokenizer location
  | DoInference "string option"
  | SetupTrainer dataset dataset nat
  | SetUseCacheFalse
  | TorchCompile
  | SavePeftConfig location
  | InstallSigintHandler
  | MakeDirs location
  | TrainerTrain "string option" bool
  | BetterTransformerReverse
  | TrainerSaveModel location

datatype outcome = Returned | Exited int | Raised error

type_synonym run = "event list \<times> outcome"

subsection \<open>Debug label inspection\<close>

text \<open>
  \<open>random.randrange(start, stop)\<close>: raises \<open>ValueError\<close> on an empty range, else
  returns \<open>start\<close> plus a number below the width, here taken from the raw draw.
\<close>

definition randrange :: "int \<Rightarrow> int \<Rightarrow> nat \<Rightarrow> error + int" where
  "randrange start stop raw =
     (if stop - start > 0 then Inr (start + int raw mod (stop - start)) else Inl ValueError)"

text \<open>A list comprehension whose elements can raise: the first exception wins.\<close>

fun collect :: "(error + 'a) list \<Rightarrow> error + 'a list" where
  "collect [] = Inr []"
| "collect (Inl e # rs) = Inl e"
| "collect (Inr x # rs) = (case collect rs of Inl e \<Rightarrow> Inl e | Inr xs \<Rightarrow> Inr (x # xs))"

text \<open>\<open>[random.randrange(0, len(train_dataset) - 1) for _ in range(5)]\<close>\<close>

definition debug_indices :: "dataset \<Rightarrow> (nat \<Rightarrow> nat) \<Rightarrow> error + int list" where
  "debug_indices train_dataset rnd =
     collect (map (\<lambda>i. randrange 0 (int (length train_dataset) - 1) (rnd i)) [0 ..< 5])"

text \<open>
  \<open>train_dataset.select(indices)\<close> builds a new dataset from the rows at the
  indices; an index outside the dataset raises \<open>IndexError\<close>.
\<close>

definition select :: "dataset \<Rightarrow> int list \<Rightarrow> error + dataset" where
  "select ds indices =
     (if list_all (\<lambda>i. - int (length ds) \<le> i \<and> i < int (length ds)) indices then
        Inr (map (\<lambda>i. ds ! nat (if i < 0 then int (length ds) + i else i)) indices)
      else Inl IndexError)"

subsection \<open>Checkpoint discovery\<close>

text \<open>The sort key \<open>int(path.split("-")[-1])\<close>.\<close>

definition checkpoint_step :: "string \<Rightarrow> int option" where
  "checkpoint_step path = py_int (last (split_on (CHR ''-'') path))"

definition checkpoint_key :: "string \<Rightarrow> error + int" where
  "checkpoint_key path =
     (case checkpoint_step path of None \<Rightarrow> Inl ValueError | Some n \<Rightarrow> Inr n)"

text \<open>
  \<open>sorted(paths, key=...)\<close> computes every key first (any failure raises) and sorts
  stably by key.
\<close>

definition sorted_by_step :: "string list \<Rightarrow> error + string list" where
  "sorted_by_step paths =
     (case collect (map checkpoint_key paths) of
        Inl e \<Rightarrow> Inl e
      | Inr keys \<Rightarrow> Inr (map snd (sort_key fst (zip keys paths))))"

text \<open>
  Lines 236 to 249: the value of \<open>resume_from_checkpoint\<close> after discovery.
\<close>

definition resolve_checkpoint :: "run_cfg \<Rightarrow> string list \<Rightarrow> error + string option" where
  "resolve_checkpoint cfg possible_checkpoints =
     (if resume_from_checkpoint cfg = None \<and> auto_resume_from_checkpoints cfg then
        (if length possible_checkpoints > 0 then
           (case sorted_by_step possible_checkpoints of
              Inl e \<Rightarrow> Inl e
            | Inr sorted_paths \<Rightarrow> Inr (Some (last sorted_paths)))
         else Inr (resume_from_checkpoint cfg))
      else Inr (resume_from_checkpoint cfg))"

subsection \<open>The run modes\<close>

definition merge_branch :: "run_cfg \<Rightarrow> bool \<Rightarrow> run" where
  "merge_branch cfg safe_serialization =
     ([MergeAndUnload, ToFloat16] @
      (if local_rank cfg = 0 then [SaveModel Merged safe_serialization, SaveTokenizer Merged]
       else []),
      Returned)"

text \<open>
  \<open>do_inference\<close> is one event: its read-generate loop returns when the operator
  enters an empty instruction.
\<close>

definition inference_branch :: "TrainerCliArgs \<Rightarrow> run" where
  "inference_branch cli_args = ([DoInference (prompter cli_args)], Returned)"

definition shard_branch :: "bool \<Rightarrow> run" where
  "shard_branch safe_serialization = ([SaveModel OutputDir safe_serialization], Returned)"

text \<open>The SIGINT handler installed at lines 269 to 277.\<close>

definition terminate_handler :: "run_cfg \<Rightarrow> bool \<Rightarrow> run" where
  "terminate_handler cfg safe_serialization =
     ((if flash_optimum cfg then [BetterTransformerReverse] else []) @
      [SaveModel OutputDir safe_serialization],
      Exited 0)"

text \<open>Lines 305 to 311.\<close>

definition final_save :: "run_cfg \<Rightarrow> bool \<Rightarrow> run" where
  "final_save cfg safe_serialization =
     (if fsdp cfg \<noteq> [] then ([TrainerSaveModel OutputDir], Returned)
      else if local_rank cfg = 0 then
        ((if flash_optimum cfg then [BetterTransformerReverse] else []) @
         [SaveModel OutputDir safe_serialization],
         Returned)
      else ([], Returned))"

text \<open>Lines 296 to 311: what follows a \<open>trainer.train\<close> that returned.\<close>

definition relora_active :: "run_cfg \<Rightarrow> bool" where
  "relora_active cfg = (case relora_steps cfg of None \<Rightarrow> False | Some n \<Rightarrow> n \<noteq> 0)"

definition post_train :: "run_cfg \<Rightarrow> bool \<Rightarrow> run" where
  "post_train cfg safe_serialization =
     (if relora_active cfg then
        (if adapter cfg = Some ''lora'' \<and> \<not> (load_in_4bit cfg \<or> load_in_8bit cfg) then
           after [MergeAndUnload] (final_save cfg safe_serialization)
         else ([], Returned))
      else final_save cfg safe_serialization)"

text \<open>
  Lines 236 to 311: checkpoint discovery, then the calls up to the blocking
  \<open>trainer.train\<close> (\<open>before_training\<close>), then what ends the run
  (\<open>end_of_training\<close>). \<open>ds\<close> is \<open>None\<close> when \<open>train_dataset\<close>, \<open>eval_dataset\<close> and
  \<open>total_num_steps\<close> were never assigned: reading them raises
  \<open>UnboundLocalError\<close>. A SIGINT during \<open>trainer.train\<close> runs the installed handler;
  where none was installed, Python's default handler raises \<open>KeyboardInterrupt\<close>.
\<close>

definition before_training ::
  "run_cfg \<Rightarrow> dataset_bundle \<Rightarrow> env \<Rightarrow> string option \<Rightarrow> event list" where
  "before_training cfg bundle e resume =
     [SetupTrainer (fst bundle) (fst (snd bundle)) (snd (snd bundle)), SetUseCacheFalse] @
     (if torch_compile e then [TorchCompile] else []) @
     (if peft_config e then [SavePeftConfig OutputDir] else []) @
     (if local_rank cfg = 0 then [InstallSigintHandler] else []) @
     (if \<not> output_dir_is_dir e then [MakeDirs OutputDir] else []) @
     [SaveTokenizer OutputDir, TrainerTrain resume (flash_optimum cfg)]"

definition end_of_training :: "run_cfg \<Rightarrow> env \<Rightarrow> bool \<Rightarrow> run" where
  "end_of_training cfg e safe_serialization =
     (if sigint e then
        (if local_rank cfg = 0 then terminate_handler cfg safe_serialization
         else ([], Raised KeyboardInterrupt))
      else post_train cfg safe_serialization)"

definition train_branch :: "run_cfg \<Rightarrow> dataset_bundle option \<Rightarrow> env \<Rightarrow> bool \<Rightarrow> run" where
  "train_branch cfg ds e safe_serialization =
     (case resolve_checkpoint cfg (checkpoints e) of
        Inl err \<Rightarrow> ([], Raised err)
      | Inr resume \<Rightarrow>
          (case ds of
             None \<Rightarrow> ([], Raised (UnboundLocalError ''train_dataset''))
           | Some bundle \<Rightarrow>
               after (before_training cfg bundle e resume)
                 (end_of_training cfg e safe_serialization)))"

text \<open>
  Lines 184 to 200: tokenizer, dataset (skipped for shard, merge_lora and inference)
  and the debug inspection. The result is the dataset bundle, if one was prepared.
\<close>

definition prelude ::
  "run_cfg \<Rightarrow> TrainerCliArgs \<Rightarrow> env \<Rightarrow> event list \<times> (error + dataset_bundle option)" where
  "prelude cfg cli_args e =
     (let loaded =
        (if \<not> (shard cli_args \<or> merge_lora cli_args \<or> inference cli_args) then
           ([LoadTokenizer, PrepareDataset], Some (prepared e))
         else ([LoadTokenizer], None))
      in
        if debug cli_args \<or> cfg_debug cfg then
          (case snd loaded of
             None \<Rightarrow> (fst loaded, Inl (UnboundLocalError ''train_dataset''))
           | Some bundle \<Rightarrow>
               (case debug_indices (fst bundle) (rand e) of
                  Inl err \<Rightarrow> (fst loaded, Inl err)
                | Inr indices \<Rightarrow>
                    (case select (fst bundle) indices of
                       Inl err \<Rightarrow> (fst loaded, Inl err)
                     | Inr selection \<Rightarrow>
                         (fst loaded @ [CheckDatasetLabels selection], Inr (snd loaded)))))
        else (fst loaded, Inr (snd loaded)))"

text \<open>The function \<open>train\<close>, lines 179 to 311.\<close>

definition train :: "run_cfg \<Rightarrow> TrainerCliArgs \<Rightarrow> env \<Rightarrow> run" where
  "train cfg cli_args e =
     (case prelude cfg cli_args e of
        (evs, Inl err) \<Rightarrow> (evs, Raised err)
      | (evs, Inr ds) \<Rightarrow>
          (if prepare_ds_only cli_args then (evs, Returned)
           else
             after (evs @ [LoadModel (inference cli_args)])
               (let safe_serialization = (save_safetensors cfg = Some True) in
                  if merge_lora cli_args \<and> adapter cfg \<noteq> None then
                    merge_branch cfg safe_serialization
                  else if inference cli_args then inference_branch cli_args
                  else if shard cli_args then shard_branch safe_serialization
                  else train_branch cfg ds e safe_serialization)))"

subsection \<open>Concrete inputs\<close>

text \<open>The defaults of the dataclass \<open>TrainerCliArgs\<close>: every flag off, no prompter.\<close>

definition default_cli_args :: TrainerCliArgs where
  "default_cli_args =
     \<lparr>debug = False, inference = False, merge_lora = False, prepare_ds_only = False,
      prompter = None, shard = False\<rparr>"

text \<open>
  A plain full fine-tune on the coordinating process: no adapter, no quantization, no
  sharding, no resume.
\<close>

definition plain_cfg :: run_cfg where
  "plain_cfg =
     \<lparr>cfg_debug = False, adapter = None, local_rank = 0, save_safetensors = None,
      resume_from_checkpoint = None, auto_resume_from_checkpoints = False,
      flash_optimum = False, relora_steps = None, load_in_4bit = False,
      load_in_8bit = False, fsdp = []\<rparr>"

text \<open>
  A training split of three examples, an evaluation split of one, ten steps; an
  existing, empty output directory; no interruption.
\<close>

definition quiet_env :: env where
  "quiet_env =
     \<lparr>prepared = ([10, 11, 12], [20], 10), rand = (\<lambda>i. 7 * i + 3), peft_config = False,
      checkpoints = [], output_dir_is_dir = True, torch_compile = False, sigint = False\<rparr>"

subsection \<open>The final save as the specification words it\<close>

text \<open>
  The specification's decision procedure for the save after a completed training, to
  be compared with what \<open>train\<close> does: with the fully-sharded strategy the trainer
  saves; otherwise only local rank 0 writes the model (after undoing the flash
  transform) and every other rank writes nothing.
\<close>

definition standard_save_spec :: "run_cfg \<Rightarrow> event list" where
  "standard_save_spec cfg =
     (if fsdp cfg \<noteq> [] then [TrainerSaveModel OutputDir]
      else if local_rank cfg = 0 then
        (if flash_optimum cfg then [BetterTransformerReverse] else []) @
        [SaveModel OutputDir (save_safetensors cfg = Some True)]
      else [])"

text \<open>
  With an active relora schedule: a lora adapter without 4-bit or 8-bit loading is
  merged and unloaded, then saved by the standard path; any other run saves nothing
  more. Without relora, the standard path.
\<close>

definition final_save_spec :: "run_cfg \<Rightarrow> event list" where
  "final_save_spec cfg =
     (if relora_active cfg then
        (if adapter cfg = Some ''lora'' \<and> \<not> load_in_4bit cfg \<and> \<not> load_in_8bit cfg then
           MergeAndUnload # standard_save_spec cfg
         else [])
      else standard_save_spec cfg)"

section \<open>Properties of \<open>choose_config\<close>\<close>

lemma choose_loop_prompts:
  "hd (fst (choose_loop yaml_files stdin)) = Input ''Enter the number of your choice: ''"
  by (cases stdin) (simp_all add: after_def split: option.splits)

lemma choose_loop_nonempty: "fst (choose_loop yaml_files stdin) \<noteq> []"
  by (cases stdin) (simp_all add: after_def split: option.splits)

lemma choose_loop_has_input:
  "Input ''Enter the number of your choice: '' \<in> set (fst (choose_loop yaml_files stdin))"
  using choose_loop_prompts [of yaml_files stdin] choose_loop_nonempty [of yaml_files stdin]
  by (metis hd_in_set)

text \<open>
  Called with a \<open>Path\<close>, \<open>choose_config\<close> does what its three cases say: with no
  YAML candidate it raises \<open>ValueError\<close> before anything is printed; with exactly one
  it returns that candidate and never calls \<open>input\<close>; with two or more it prompts
  the operator with \<open>input\<close>, does not raise \<open>ValueError\<close>, and a first answer
  that is a number of the list selects that entry.
\<close>

lemma choose_config_on_path:
  assumes "yaml_files = glob_yml fs p"
  shows
  "(yaml_files = [] \<longrightarrow> choose_config fs (PathObject p) stdin = ([], Inl ValueError)) \<and>
   (length yaml_files = 1 \<longrightarrow>
      snd (choose_config fs (PathObject p) stdin) = Inr (hd yaml_files) \<and>
      (\<forall>q. Input q \<notin> set (fst (choose_config fs (PathObject p) stdin)))) \<and>
   (2 \<le> length yaml_files \<longrightarrow>
      Input ''Enter the number of your choice: ''
        \<in> set (fst (choose_config fs (PathObject p) stdin)) \<and>
      snd (choose_config fs (PathObject p) stdin) \<noteq> Inl ValueError \<and>
      (\<forall>line rest choice. stdin = line # rest \<and> py_int line = Some choice \<and>
          1 \<le> choice \<and> choice \<le> int (length yaml_files) \<longrightarrow>
          snd (choose_config fs (PathObject p) stdin) = Inr (yaml_files ! nat (choice - 1))))"
proof (intro conjI impI)
  assume "yaml_files = []"
  then show "choose_config fs (PathObject p) stdin = ([], Inl ValueError)"
    using assms by (simp add: choose_config_def Let_def)
next
  assume one: "length yaml_files = 1"
  then have ne: "yaml_files \<noteq> []" by auto
  from one ne show "snd (choose_config fs (PathObject p) stdin) = Inr (hd yaml_files)"
    using assms by (simp add: choose_config_def Let_def hd_conv_nth)
  from one ne show "\<forall>q. Input q \<notin> set (fst (choose_config fs (PathObject p) stdin))"
    using assms by (simp add: choose_config_def Let_def)
next
  assume two: "2 \<le> length yaml_files"
  then have sel: "choose_config fs (PathObject p) stdin =
      after (Print ''Choose a YAML file:'' #
             map (\<lambda>(idx, file). Print (str_nat (idx + 1) @ ''. '' @ file))
               (zip [0 ..< length yaml_files] yaml_files))
        (choose_loop yaml_files stdin)"
    using assms by (auto simp: choose_config_def Let_def)
  show "Input ''Enter the number of your choice: ''
      \<in> set (fst (choose_config fs (PathObject p) stdin))"
    using choose_loop_has_input [of yaml_files stdin] by (simp add: sel after_def)
  have "snd (choose_loop yaml_files stdin) \<noteq> Inl ValueError"
    by (induction stdin) (simp_all add: after_def split: option.splits)
  then show "snd (choose_config fs (PathObject p) stdin) \<noteq> Inl ValueError"
    by (simp add: sel after_def)
  show "\<forall>line rest choice. stdin = line # rest \<and> py_int line = Some choice \<and>
          1 \<le> choice \<and> choice \<le> int (length yaml_files) \<longrightarrow>
          snd (choose_config fs (PathObject p) stdin) = Inr (yaml_files ! nat (choice - 1))"
    using two assms by (auto simp: choose_config_def Let_def after_def)
qed

lemma py_int_2: "py_int ''2'' = Some 2"
  by (simp add: py_int_def strip_def is_space_def digits_value_def digit_of_def)

text \<open>
  The separators 0x1C to 0x1F are no whitespace for \<open>int\<close>, the code points 0x85 and
  0xA0 are.
\<close>

lemma py_int_separator: "py_int [CHR 0x1C, CHR ''2''] = None"
  by (simp add: py_int_def strip_def is_space_def digits_value_def digit_of_def)

lemma py_int_nbsp: "py_int [CHR 0xA0, CHR ''2'', CHR 0x85] = Some 2"
  by (simp add: py_int_def strip_def is_space_def digits_value_def digit_of_def)

lemma py_int_1: "py_int ''1'' = Some 1"
  by (simp add: py_int_def strip_def is_space_def digits_value_def digit_of_def)

lemma choose_config_on_path_example:
  "snd (choose_config two_yml_dir (PathObject ''configs/'') [''2'']) = Inr ''configs/b.yml'' \<and>
   snd (choose_config two_yml_dir (PathObject ''configs/'') [[CHR 0x1C, CHR ''2''], ''1'']) =
     Inr ''configs/a.yml''"
proof
  show "snd (choose_config two_yml_dir (PathObject ''configs/'') [''2'']) = Inr ''configs/b.yml''"
    using
      choose_config_on_path [of "[''configs/a.yml'', ''configs/b.yml'']" two_yml_dir
        "''configs/''" "[''2'']"]
      py_int_2
    by (simp add: two_yml_dir_def)
  show "snd (choose_config two_yml_dir (PathObject ''configs/'') [[CHR 0x1C, CHR ''2''], ''1'']) =
     Inr ''configs/a.yml''"
    by (simp add: two_yml_dir_def choose_config_def Let_def after_def py_int_separator py_int_1)
qed

lemma choose_config_on_str: "choose_config fs (StrObject s) stdin = ([], Inl AttributeError)"
  by (simp add: choose_config_def)

lemma load_cfg_config_on_str:
  "is_dir fs s \<Longrightarrow> load_cfg_config fs (StrObject s) stdin = ([], Inl AttributeError)"
  by (simp add: load_cfg_config_def choose_config_on_str)

text \<open>
  C7. When the configuration source is a directory holding exactly one YAML candidate,
  that candidate should be selected without prompting. A directory named on the command
  line reaches \<open>load_cfg\<close> as a \<open>str\<close>; line 315 wraps it in \<open>Path\<close> for the
  directory test, line 316 passes it to \<open>choose_config\<close> unwrapped, and
  \<open>path.glob\<close> raises \<open>AttributeError\<close>: nothing is selected, nothing is printed.
  The same directory given as a \<open>Path\<close> resolves to its one candidate.
\<close>

theorem str_directory_source_raises:
  "load_cfg_config one_yml_dir (StrObject ''configs/'') [] = ([], Inl AttributeError) \<and>
   snd (load_cfg_config one_yml_dir (PathObject ''configs/'') []) =
     Inr (PathObject ''configs/a.yml'')"
  by (simp add: load_cfg_config_def choose_config_def Let_def one_yml_dir_def)

section \<open>Properties of the overrides of \<open>load_cfg\<close>\<close>

lemma apply_override_other: "k \<noteq> fst kv \<Longrightarrow> apply_override cfg kv k = cfg k"
  by (simp add: apply_override_def)

lemma apply_overrides_other:
  "k \<notin> fst ` set kwargs \<Longrightarrow> apply_overrides cfg kwargs k = cfg k"
  by (induction kwargs arbitrary: cfg) (auto simp: apply_override_other)

lemma apply_overrides_append:
  "apply_overrides cfg (xs @ ys) = apply_overrides (apply_overrides cfg xs) ys"
  by (induction xs arbitrary: cfg) simp_all

lemma apply_override_at:
  "apply_override cfg (k, v) k =
     (if k \<in> dom cfg \<or> non_strict cfg
      then Some (if is_bool (cfg_get cfg k) then PBool (truthy v) else v)
      else None)"
  by (auto simp: apply_override_def)

text \<open>
  C8. For every override \<open>(k, v)\<close> among the keyword arguments (whose keys are
  distinct): after the loop the configuration holds the override at \<open>k\<close> if and only
  if \<open>k\<close> is a key of the loaded source or the configuration is non-strict when the
  pair is processed; the stored value is \<open>bool(v)\<close> when the existing value at
  \<open>k\<close> is a \<open>bool\<close>, and \<open>v\<close> itself otherwise. Unless an earlier override set
  \<open>strict\<close>, being non-strict at that point is being non-strict in the loaded source.
\<close>

theorem load_cfg_override:
  assumes "distinct (map fst (pre @ (k, v) # post))"
  shows "apply_overrides cfg (pre @ (k, v) # post) k =
           (if k \<in> dom cfg \<or> non_strict (apply_overrides cfg pre)
            then Some (if is_bool (cfg_get cfg k) then PBool (truthy v) else v)
            else None) \<and>
         (''strict'' \<notin> fst ` set pre \<longrightarrow>
            non_strict (apply_overrides cfg pre) = non_strict cfg)"
proof
  let ?c = "apply_overrides cfg pre"
  from assms have kpre: "k \<notin> fst ` set pre" and kpost: "k \<notin> fst ` set post"
    by auto
  have same: "?c k = cfg k"
    using kpre by (rule apply_overrides_other)
  then have get: "cfg_get ?c k = cfg_get cfg k" and dom: "k \<in> dom ?c \<longleftrightarrow> k \<in> dom cfg"
    by (simp_all add: cfg_get_def dom_def)
  have "apply_overrides cfg (pre @ (k, v) # post) k
          = apply_overrides (apply_override ?c (k, v)) post k"
    by (simp add: apply_overrides_append)
  also have "\<dots> = apply_override ?c (k, v) k"
    using kpost by (rule apply_overrides_other)
  also have "\<dots> = (if k \<in> dom cfg \<or> non_strict ?c
            then Some (if is_bool (cfg_get cfg k) then PBool (truthy v) else v)
            else None)"
    by (simp only: apply_override_at get dom)
  finally show "apply_overrides cfg (pre @ (k, v) # post) k =
           (if k \<in> dom cfg \<or> non_strict ?c
            then Some (if is_bool (cfg_get cfg k) then PBool (truthy v) else v)
            else None)" .
  show "''strict'' \<notin> fst ` set pre \<longrightarrow> non_strict ?c = non_strict cfg"
    by (simp add: non_strict_def cfg_get_def apply_overrides_other)
qed

theorem load_cfg_override_witness:
  "apply_overrides [''strict'' \<mapsto> PBool True, ''flash_optimum'' \<mapsto> PBool False]
      [(''seed'', PInt 7), (''flash_optimum'', PInt 1)] ''flash_optimum'' = Some (PBool True) \<and>
   apply_overrides [''strict'' \<mapsto> PBool True, ''flash_optimum'' \<mapsto> PBool False]
      [(''seed'', PInt 7), (''flash_optimum'', PInt 1)] ''seed'' = None \<and>
   apply_overrides [''lr'' \<mapsto> PInt 1]
      [(''seed'', PInt 7), (''lr'', PStr ''x'')] ''seed'' = Some (PInt 7)"
  using
    load_cfg_override [of "[(''seed'', PInt 7)]" "''flash_optimum''" "PInt 1" "[]"
      "[''strict'' \<mapsto> PBool True, ''flash_optimum'' \<mapsto> PBool False]"]
    load_cfg_override [of "[]" "''seed''" "PInt 7" "[(''flash_optimum'', PInt 1)]"
      "[''strict'' \<mapsto> PBool True, ''flash_optimum'' \<mapsto> PBool False]"]
    load_cfg_override [of "[]" "''seed''" "PInt 7" "[(''lr'', PStr ''x'')]"
      "[''lr'' \<mapsto> PInt 1]"]
  by (simp add: apply_override_def non_strict_def cfg_get_def)

section \<open>The structure of a run of \<open>train\<close>\<close>

lemma prelude_events:
  "ev \<in> set (fst (prelude cfg cli e)) \<Longrightarrow>
     ev = LoadTokenizer \<or> ev = PrepareDataset \<or> (\<exists>d. ev = CheckDatasetLabels d)"
  by (auto simp: prelude_def Let_def split: if_splits option.splits sum.splits)

lemma prelude_bundle:
  "prelude cfg cli e = (evs, Inr (Some b)) \<Longrightarrow>
     b = prepared e \<and> \<not> (shard cli \<or> merge_lora cli \<or> inference cli)"
  by (auto simp: prelude_def Let_def split: if_splits option.splits sum.splits)

lemma final_save_events:
  "ev \<in> set (fst (final_save cfg s)) \<Longrightarrow>
     ev = TrainerSaveModel OutputDir \<or> ev = BetterTransformerReverse \<or> ev = SaveModel OutputDir s"
  by (auto simp: final_save_def split: if_splits)

lemma post_train_events:
  "ev \<in> set (fst (post_train cfg s)) \<Longrightarrow>
     ev = MergeAndUnload \<or> ev = TrainerSaveModel OutputDir \<or> ev = BetterTransformerReverse \<or>
     ev = SaveModel OutputDir s"
  by (auto simp: post_train_def after_def split: if_splits dest: final_save_events)

lemma end_of_training_events:
  "ev \<in> set (fst (end_of_training cfg e s)) \<Longrightarrow>
     ev = MergeAndUnload \<or> ev = TrainerSaveModel OutputDir \<or> ev = BetterTransformerReverse \<or>
     ev = SaveModel OutputDir s"
  by (auto simp: end_of_training_def terminate_handler_def split: if_splits dest: post_train_events)

lemma train_branch_Some:
  "train_branch cfg (Some b) e s =
     (case resolve_checkpoint cfg (checkpoints e) of
        Inl err \<Rightarrow> ([], Raised err)
      | Inr resume \<Rightarrow> after (before_training cfg b e resume) (end_of_training cfg e s))"
  by (simp add: train_branch_def split: sum.splits)

lemma train_branch_None_no_training:
  "TrainerTrain r f \<notin> set (fst (train_branch cfg None e s))"
  by (simp add: train_branch_def split: sum.splits)

lemma before_training_trainer:
  "TrainerTrain r f \<in> set (before_training cfg b e resume) \<longleftrightarrow>
     r = resume \<and> f = flash_optimum cfg"
  by (auto simp: before_training_def)

lemma train_reached:
  assumes "TrainerTrain r f \<in> set (fst (train cfg cli e))"
  shows "\<exists>evs. prelude cfg cli e = (evs, Inr (Some (prepared e))) \<and>
           \<not> prepare_ds_only cli \<and> \<not> shard cli \<and> \<not> merge_lora cli \<and> \<not> inference cli \<and>
           resolve_checkpoint cfg (checkpoints e) = Inr r \<and> f = flash_optimum cfg \<and>
           train cfg cli e =
             after (evs @ LoadModel False # before_training cfg (prepared e) e r) (end_of_training cfg e (save_safetensors cfg = Some True))"
proof -
  obtain evs res where pre: "prelude cfg cli e = (evs, res)"
    by (cases "prelude cfg cli e") auto
  have evs: "TrainerTrain r f \<notin> set evs"
    using prelude_events [of "TrainerTrain r f" cfg cli e] pre by auto
  show ?thesis
  proof (cases res)
    case (Inl err)
    with assms pre evs show ?thesis by (simp add: train_def)
  next
    case (Inr ds)
    show ?thesis
    proof (cases ds)
      case None
      with assms pre evs Inr show ?thesis
        using train_branch_None_no_training [of r f cfg e]
        by (auto simp: train_def after_def merge_branch_def inference_branch_def
            shard_branch_def Let_def split: if_splits)
    next
      case (Some b)
      with pre Inr have b: "b = prepared e" and flags: "\<not> (shard cli \<or> merge_lora cli \<or> inference cli)"
        using prelude_bundle [of cfg cli e evs b] by auto
      from assms pre evs Inr Some flags have np: "\<not> prepare_ds_only cli"
        by (auto simp: train_def split: if_splits)
      from assms pre evs Inr Some flags np
      have tb: "TrainerTrain r f \<in> set (fst (train_branch cfg (Some b) e (save_safetensors cfg = Some True)))"
        by (auto simp: train_def after_def Let_def)
      then obtain resume where res: "resolve_checkpoint cfg (checkpoints e) = Inr resume"
        by (auto simp: train_branch_Some split: sum.splits)
      from tb res have "TrainerTrain r f \<in> set (before_training cfg b e resume) \<or>
          TrainerTrain r f \<in> set (fst (end_of_training cfg e (save_safetensors cfg = Some True)))"
        by (auto simp: train_branch_Some after_def)
      then have rf: "r = resume \<and> f = flash_optimum cfg"
        using end_of_training_events [of "TrainerTrain r f" cfg e] by (auto simp: before_training_trainer)
      have "train cfg cli e =
             after (evs @ LoadModel False # before_training cfg (prepared e) e r) (end_of_training cfg e (save_safetensors cfg = Some True))"
        using pre Inr Some flags np res rf b
        by (simp add: train_def train_branch_Some after_def Let_def)
      with pre Inr Some b flags np res rf show ?thesis by auto
    qed
  qed
qed

section \<open>Interruption during training\<close>

lemmas run_defs =
  train_def prelude_def train_branch_def resolve_checkpoint_def before_training_def
  end_of_training_def terminate_handler_def post_train_def final_save_def after_def
  merge_branch_def inference_branch_def shard_branch_def relora_active_def
  plain_cfg_def default_cli_args_def quiet_env_def

text \<open>
  C2. Only a process whose local rank is 0 installs the SIGINT handler. When SIGINT
  arrives during \<open>trainer.train\<close>: on local rank 0 the handler was installed, and the
  run continues after \<open>trainer.train\<close> with exactly the reversal of the flash
  transform (when \<open>flash_optimum\<close> is set), then the save of the model to the output
  directory with the configured serialization, and the process exits with status 0;
  on any other rank no handler was installed, no model is saved and the run ends in
  \<open>KeyboardInterrupt\<close>.
\<close>

theorem interrupt_save_and_exit:
  "(InstallSigintHandler \<in> set (fst (train cfg cli e)) \<longrightarrow> local_rank cfg = 0) \<and>
   (TrainerTrain r f \<in> set (fst (train cfg cli e)) \<and> sigint e \<longrightarrow>
      (local_rank cfg = 0 \<longrightarrow>
         InstallSigintHandler \<in> set (fst (train cfg cli e)) \<and>
         (\<exists>pre. TrainerTrain r f \<notin> set pre \<and>
            (\<forall>d s. SaveModel d s \<notin> set pre) \<and>
            fst (train cfg cli e) =
              pre @ TrainerTrain r f #
              (if flash_optimum cfg then [BetterTransformerReverse] else []) @
              [SaveModel OutputDir (save_safetensors cfg = Some True)]) \<and>
         snd (train cfg cli e) = Exited 0) \<and>
      (local_rank cfg \<noteq> 0 \<longrightarrow>
         InstallSigintHandler \<notin> set (fst (train cfg cli e)) \<and>
         (\<forall>d s. SaveModel d s \<notin> set (fst (train cfg cli e))) \<and>
         snd (train cfg cli e) = Raised KeyboardInterrupt))"
proof (intro conjI impI)
  assume h: "InstallSigintHandler \<in> set (fst (train cfg cli e))"
  show "local_rank cfg = 0"
  proof (rule ccontr)
    assume nz: "local_rank cfg \<noteq> 0"
    obtain evs res where pre: "prelude cfg cli e = (evs, res)"
      by (cases "prelude cfg cli e") auto
    have evs: "InstallSigintHandler \<notin> set evs"
      using prelude_events [of InstallSigintHandler cfg cli e] pre by auto
    have tb: "InstallSigintHandler \<notin> set (fst (train_branch cfg ds e s))" for ds s
      using nz end_of_training_events [of InstallSigintHandler cfg e s]
      by (auto simp: train_branch_def after_def before_training_def
          split: sum.splits option.splits)
    from h pre evs tb show False
      by (auto simp: train_def after_def merge_branch_def inference_branch_def
          shard_branch_def Let_def split: if_splits sum.splits)
  qed
next
  assume a: "TrainerTrain r f \<in> set (fst (train cfg cli e)) \<and> sigint e"
  then obtain evs where
    pre: "prelude cfg cli e = (evs, Inr (Some (prepared e)))" and
    run: "train cfg cli e =
            after (evs @ LoadModel False # before_training cfg (prepared e) e r)
              (end_of_training cfg e (save_safetensors cfg = Some True))" and
    f: "f = flash_optimum cfg"
    using train_reached [of r f cfg cli e] by auto
  have evs: "ev \<in> set evs \<Longrightarrow>
      ev = LoadTokenizer \<or> ev = PrepareDataset \<or> (\<exists>d. ev = CheckDatasetLabels d)" for ev
    using prelude_events [of ev cfg cli e] pre by simp
  {
    assume z: "local_rank cfg = 0"
    show "InstallSigintHandler \<in> set (fst (train cfg cli e))"
      using z by (simp add: run after_def before_training_def)
    let ?pre = "evs @ LoadModel False # butlast (before_training cfg (prepared e) e r)"
    have bt: "before_training cfg (prepared e) e r =
        butlast (before_training cfg (prepared e) e r) @ [TrainerTrain r f]"
      by (simp add: before_training_def f butlast_append)
    have nopre: "TrainerTrain r f \<notin> set ?pre \<and> (\<forall>d s. SaveModel d s \<notin> set ?pre)"
      using evs by (auto simp: before_training_def butlast_append)
    have "fst (train cfg cli e) =
        (evs @ LoadModel False # before_training cfg (prepared e) e r) @
        (if flash_optimum cfg then [BetterTransformerReverse] else []) @
        [SaveModel OutputDir (save_safetensors cfg = Some True)]"
      using a z by (simp add: run after_def end_of_training_def terminate_handler_def)
    also have "\<dots> = ?pre @ TrainerTrain r f #
        (if flash_optimum cfg then [BetterTransformerReverse] else []) @
        [SaveModel OutputDir (save_safetensors cfg = Some True)]"
      by (subst bt) simp
    finally have "fst (train cfg cli e) = ?pre @ TrainerTrain r f #
        (if flash_optimum cfg then [BetterTransformerReverse] else []) @
        [SaveModel OutputDir (save_safetensors cfg = Some True)]" .
    with nopre show "\<exists>pre. TrainerTrain r f \<notin> set pre \<and>
            (\<forall>d s. SaveModel d s \<notin> set pre) \<and>
            fst (train cfg cli e) =
              pre @ TrainerTrain r f #
              (if flash_optimum cfg then [BetterTransformerReverse] else []) @
              [SaveModel OutputDir (save_safetensors cfg = Some True)]"
      by blast
    show "snd (train cfg cli e) = Exited 0"
      using a z by (simp add: run after_def end_of_training_def terminate_handler_def)
  }
  {
    assume nz: "local_rank cfg \<noteq> 0"
    have tr: "fst (train cfg cli e) = evs @ LoadModel False # before_training cfg (prepared e) e r"
      using a nz by (simp add: run after_def end_of_training_def)
    show "InstallSigintHandler \<notin> set (fst (train cfg cli e))"
      using nz evs by (auto simp: tr before_training_def)
    show "\<forall>d s. SaveModel d s \<notin> set (fst (train cfg cli e))"
      using evs by (auto simp: tr before_training_def)
    show "snd (train cfg cli e) = Raised KeyboardInterrupt"
      using a nz by (simp add: run after_def end_of_training_def)
  }
qed

theorem interrupt_save_and_exit_witness:
  "local_rank plain_cfg = 0 \<and>
   train (plain_cfg\<lparr>flash_optimum := True\<rparr>) default_cli_args (quiet_env\<lparr>sigint := True\<rparr>) =
     ([LoadTokenizer, PrepareDataset, LoadModel False, SetupTrainer [10, 11, 12] [20] 10,
       SetUseCacheFalse, InstallSigintHandler, SaveTokenizer OutputDir,
       TrainerTrain None True, BetterTransformerReverse, SaveModel OutputDir False],
      Exited 0) \<and>
   train (plain_cfg\<lparr>local_rank := 1\<rparr>) default_cli_args (quiet_env\<lparr>sigint := True\<rparr>) =
     ([LoadTokenizer, PrepareDataset, LoadModel False, SetupTrainer [10, 11, 12] [20] 10,
       SetUseCacheFalse, SaveTokenizer OutputDir, TrainerTrain None False],
      Raised KeyboardInterrupt)"
  using
    interrupt_save_and_exit [of "plain_cfg\<lparr>flash_optimum := True\<rparr>" default_cli_args
      "quiet_env\<lparr>sigint := True\<rparr>" None True]
    interrupt_save_and_exit [of "plain_cfg\<lparr>local_rank := 1\<rparr>" default_cli_args
      "quiet_env\<lparr>sigint := True\<rparr>" None False]
  by (simp add: run_defs)

section \<open>The final save after a completed training\<close>

lemma post_train_is_spec:
  "post_train cfg (save_safetensors cfg = Some True) = (final_save_spec cfg, Returned)"
  by (simp add: post_train_def final_save_def final_save_spec_def standard_save_spec_def
      after_def)

text \<open>
  C4. Whenever \<open>trainer.train\<close> was called and no interruption arrived, what follows
  it in the run is exactly the final save of the decision procedure
  \<open>final_save_spec\<close>, and \<open>train\<close> returns: with relora active, a lora adapter
  loaded without 4-bit or 8-bit quantization is merged and unloaded and then saved by
  the standard path, and any other run saves nothing; the standard path delegates to
  \<open>trainer.save_model\<close> under fsdp, and otherwise writes the model on local rank 0
  only.
\<close>

theorem final_save_decision:
  assumes "TrainerTrain r f \<in> set (fst (train cfg cli e))" and "\<not> sigint e"
  shows "\<exists>pre. TrainerTrain r f \<notin> set pre \<and>
           train cfg cli e = (pre @ TrainerTrain r f # final_save_spec cfg, Returned)"
proof -
  from assms(1) obtain evs where
    pre: "prelude cfg cli e = (evs, Inr (Some (prepared e)))" and
    run: "train cfg cli e =
            after (evs @ LoadModel False # before_training cfg (prepared e) e r)
              (end_of_training cfg e (save_safetensors cfg = Some True))" and
    f: "f = flash_optimum cfg"
    using train_reached [of r f cfg cli e] by auto
  have evs: "TrainerTrain r f \<notin> set evs"
    using prelude_events [of "TrainerTrain r f" cfg cli e] pre by auto
  let ?pre = "evs @ LoadModel False # butlast (before_training cfg (prepared e) e r)"
  have bt: "before_training cfg (prepared e) e r =
      butlast (before_training cfg (prepared e) e r) @ [TrainerTrain r f]"
    by (simp add: before_training_def f butlast_append)
  have nopre: "TrainerTrain r f \<notin> set ?pre"
    using evs by (auto simp: before_training_def butlast_append)
  have "train cfg cli e =
      ((evs @ LoadModel False # before_training cfg (prepared e) e r) @ final_save_spec cfg,
       Returned)"
    using assms(2) by (simp add: run after_def end_of_training_def post_train_is_spec)
  also have "(evs @ LoadModel False # before_training cfg (prepared e) e r) @ final_save_spec cfg
      = ?pre @ TrainerTrain r f # final_save_spec cfg"
    by (subst bt) simp
  finally show ?thesis using nopre by blast
qed

theorem final_save_decision_witness:
  "train (plain_cfg\<lparr>relora_steps := Some 150, adapter := Some ''lora''\<rparr>) default_cli_args quiet_env =
     ([LoadTokenizer, PrepareDataset, LoadModel False, SetupTrainer [10, 11, 12] [20] 10,
       SetUseCacheFalse, InstallSigintHandler, SaveTokenizer OutputDir] @
      TrainerTrain None False # [MergeAndUnload, SaveModel OutputDir False], Returned) \<and>
   final_save_spec (plain_cfg\<lparr>relora_steps := Some 150, adapter := Some ''lora'',
      load_in_8bit := True\<rparr>) = [] \<and>
   final_save_spec (plain_cfg\<lparr>fsdp := [''full_shard'']\<rparr>) = [TrainerSaveModel OutputDir] \<and>
   final_save_spec (plain_cfg\<lparr>local_rank := 1\<rparr>) = []"
  using final_save_decision [of None False
      "plain_cfg\<lparr>relora_steps := Some 150, adapter := Some ''lora''\<rparr>" default_cli_args quiet_env]
  by (simp add: run_defs final_save_spec_def standard_save_spec_def)

section \<open>The dispatch of run modes and the writes of a run\<close>

text \<open>
  Whatever the flags, a run without an adapter never merges and never writes into the
  \<open>merged\<close> subdirectory.
\<close>

lemma no_adapter_no_merge:
  assumes "adapter cfg = None"
  shows "MergeAndUnload \<notin> set (fst (train cfg cli e)) \<and>
         ToFloat16 \<notin> set (fst (train cfg cli e)) \<and>
         SaveModel Merged s \<notin> set (fst (train cfg cli e)) \<and>
         SaveTokenizer Merged \<notin> set (fst (train cfg cli e))"
proof -
  obtain evs res where pre: "prelude cfg cli e = (evs, res)"
    by (cases "prelude cfg cli e") auto
  have evs: "ev \<in> set evs \<Longrightarrow>
      ev = LoadTokenizer \<or> ev = PrepareDataset \<or> (\<exists>d. ev = CheckDatasetLabels d)" for ev
    using prelude_events [of ev cfg cli e] pre by simp
  have pt: "ev \<in> set (fst (post_train cfg t)) \<Longrightarrow> ev \<in> set (fst (final_save cfg t))" for ev t
    using assms by (simp add: post_train_def split: if_splits)
  have tb: "ev \<in> set (fst (train_branch cfg ds e t)) \<Longrightarrow>
      ev \<notin> {MergeAndUnload, ToFloat16, SaveModel Merged s, SaveTokenizer Merged}" for ev ds t
    using pt [of ev t]
    by (auto simp: train_branch_def after_def before_training_def end_of_training_def
        terminate_handler_def final_save_def split: sum.splits option.splits if_splits)
  have "ev \<in> set (fst (train cfg cli e)) \<Longrightarrow>
      ev \<notin> {MergeAndUnload, ToFloat16, SaveModel Merged s, SaveTokenizer Merged}" for ev
    using assms pre evs [of ev] tb [of ev]
    by (auto simp: train_def after_def inference_branch_def shard_branch_def Let_def
        split: if_splits sum.splits)
  then show ?thesis by blast
qed

text \<open>
  The dispatch of lines 202 to 234, once the steps before it have returned: the first
  branch whose test holds is the one that runs.
\<close>

lemma dispatch_priority:
  assumes "prelude cfg cli e = (evs, Inr ds)"
  shows "train cfg cli e =
     (if prepare_ds_only cli then (evs, Returned)
      else after (evs @ [LoadModel (inference cli)])
        (if merge_lora cli \<and> adapter cfg \<noteq> None then
           merge_branch cfg (save_safetensors cfg = Some True)
         else if inference cli then inference_branch cli
         else if shard cli then shard_branch (save_safetensors cfg = Some True)
         else train_branch cfg ds e (save_safetensors cfg = Some True)))"
  using assms by (simp add: train_def Let_def)

text \<open>
  C1. With \<open>debug\<close> and \<open>shard\<close> both set the dataset is not prepared, and the debug
  inspection reads \<open>train_dataset\<close> before any run mode is tested: the run raises
  \<open>UnboundLocalError\<close> after loading the tokenizer, and no mode executes.
\<close>

theorem debug_with_shard_runs_no_mode:
  "train plain_cfg (default_cli_args\<lparr>debug := True, shard := True\<rparr>) quiet_env =
     ([LoadTokenizer], Raised (UnboundLocalError ''train_dataset''))"
  by (simp add: run_defs)

text \<open>
  C9. With \<open>merge_lora\<close> set, no adapter configured and no other flag, the merge
  branch is skipped and control reaches the training path; the dataset was never
  prepared, so the run raises \<open>UnboundLocalError\<close> at \<open>setup_trainer\<close>, before any
  training.
\<close>

theorem merge_without_adapter_cannot_train:
  "train plain_cfg (default_cli_args\<lparr>merge_lora := True\<rparr>) quiet_env =
     ([LoadTokenizer, LoadModel False], Raised (UnboundLocalError ''train_dataset''))"
  by (simp add: run_defs)

text \<open>
  C3. With the fully-sharded strategy and the flash transform both configured, a
  completed training is saved by \<open>trainer.save_model\<close> and the transform is never
  reversed.
\<close>

theorem fsdp_save_skips_reverse:
  "train (plain_cfg\<lparr>fsdp := [''full_shard''], flash_optimum := True\<rparr>) default_cli_args quiet_env =
     ([LoadTokenizer, PrepareDataset, LoadModel False, SetupTrainer [10, 11, 12] [20] 10,
       SetUseCacheFalse, InstallSigintHandler, SaveTokenizer OutputDir,
       TrainerTrain None True, TrainerSaveModel OutputDir],
      Returned)"
  by (simp add: run_defs)

text \<open>
  C5. A process of local rank 1, with an adapter configuration and no output directory
  yet, creates the output directory and writes the adapter configuration and the
  tokenizer files into it.
\<close>

theorem other_rank_writes_output_dir:
  "train (plain_cfg\<lparr>local_rank := 1, adapter := Some ''lora''\<rparr>) default_cli_args
      (quiet_env\<lparr>peft_config := True, output_dir_is_dir := False\<rparr>) =
     ([LoadTokenizer, PrepareDataset, LoadModel False, SetupTrainer [10, 11, 12] [20] 10,
       SetUseCacheFalse, SavePeftConfig OutputDir, MakeDirs OutputDir,
       SaveTokenizer OutputDir, TrainerTrain None False],
      Returned)"
  by (simp add: run_defs)

section \<open>Debug label inspection\<close>

lemma collect_all_Inr: "collect (map (\<lambda>i. Inr (g i)) xs) = Inr (map g xs)"
  by (induction xs) simp_all

lemma collect_all_Inl: "xs \<noteq> [] \<Longrightarrow> collect (map (\<lambda>i. Inl err) xs) = Inl err"
  by (cases xs) simp_all

lemma debug_indices_small:
  "length ds < 2 \<Longrightarrow> debug_indices ds rnd = Inl ValueError"
proof -
  assume "length ds < 2"
  then have "randrange 0 (int (length ds) - 1) raw = Inl ValueError" for raw
    by (simp add: randrange_def)
  then show ?thesis
    by (simp add: debug_indices_def collect_all_Inl)
qed

lemma debug_indices_large:
  assumes "2 \<le> length ds"
  shows "debug_indices ds rnd = Inr (map (\<lambda>i. int (rnd i mod (length ds - 1))) [0 ..< 5])"
proof -
  have "randrange 0 (int (length ds) - 1) raw = Inr (int (raw mod (length ds - 1)))" for raw
    using assms by (simp add: randrange_def zmod_int of_nat_diff)
  then show ?thesis
    by (simp add: debug_indices_def collect_all_Inr)
qed

lemma select_in_range:
  assumes "\<forall>i \<in> set idxs. i < length ds"
  shows "select ds (map int idxs) = Inr (map ((!) ds) idxs)"
  using assms by (simp add: select_def list_all_iff comp_def)

lemma setup_trainer_bundle:
  assumes "SetupTrainer tr ev n \<in> set (fst (train cfg cli e))"
  shows "(tr, ev, n) = prepared e"
proof -
  obtain evs res where pre: "prelude cfg cli e = (evs, res)"
    by (cases "prelude cfg cli e") auto
  have evs: "SetupTrainer tr ev n \<notin> set evs"
    using prelude_events [of "SetupTrainer tr ev n" cfg cli e] pre by auto
  have tb: "SetupTrainer tr ev n \<in> set (fst (train_branch cfg (Some b) e s)) \<Longrightarrow> (tr, ev, n) = b"
    for b s
    using end_of_training_events [of "SetupTrainer tr ev n" cfg e s]
    by (auto simp: train_branch_Some after_def before_training_def split: sum.splits)
  have tn: "SetupTrainer tr ev n \<notin> set (fst (train_branch cfg None e s))" for s
    by (simp add: train_branch_def split: sum.splits)
  show ?thesis
  proof (cases res)
    case (Inl err)
    with assms pre evs show ?thesis by (simp add: train_def)
  next
    case (Inr ds)
    show ?thesis
    proof (cases ds)
      case None
      with assms pre evs Inr tn show ?thesis
        by (auto simp: train_def after_def merge_branch_def inference_branch_def
            shard_branch_def Let_def split: if_splits)
    next
      case (Some b)
      with pre Inr have b: "b = prepared e"
        using prelude_bundle [of cfg cli e evs b] by auto
      from assms pre evs Inr Some tb [of b] b show ?thesis
        by (auto simp: train_def after_def merge_branch_def inference_branch_def
            shard_branch_def Let_def split: if_splits)
    qed
  qed
qed

text \<open>
  C10. With debug inspection enabled and a prepared dataset: a training split of fewer
  than two examples makes the sampling raise \<open>ValueError\<close> right after the dataset
  is prepared; otherwise the inspected selection is the rows at five indices, each at
  most \<open>len(train_dataset) - 2\<close>, so never the last row; and the training split later
  handed to \<open>setup_trainer\<close> is the prepared one, unchanged.
\<close>

theorem debug_label_inspection:
  assumes "debug cli \<or> cfg_debug cfg"
    and "\<not> (shard cli \<or> merge_lora cli \<or> inference cli)"
  shows "(length (fst (prepared e)) < 2 \<longrightarrow>
            train cfg cli e = ([LoadTokenizer, PrepareDataset], Raised ValueError)) \<and>
         (2 \<le> length (fst (prepared e)) \<longrightarrow>
            (\<exists>idxs. length idxs = 5 \<and>
               (\<forall>i \<in> set idxs. i + 2 \<le> length (fst (prepared e))) \<and>
               take 3 (fst (train cfg cli e)) =
                 [LoadTokenizer, PrepareDataset,
                  CheckDatasetLabels (map ((!) (fst (prepared e))) idxs)])) \<and>
         (\<forall>tr ev n. SetupTrainer tr ev n \<in> set (fst (train cfg cli e)) \<longrightarrow>
            (tr, ev, n) = prepared e)"
proof (intro conjI impI allI)
  let ?tr = "fst (prepared e)"
  {
    assume "length ?tr < 2"
    then have "prelude cfg cli e = ([LoadTokenizer, PrepareDataset], Inl ValueError)"
      using assms by (simp add: prelude_def debug_indices_small)
    then show "train cfg cli e = ([LoadTokenizer, PrepareDataset], Raised ValueError)"
      by (simp add: train_def)
  }
  {
    assume big: "2 \<le> length ?tr"
    define idxs where "idxs = map (\<lambda>i. rand e i mod (length ?tr - 1)) [0 ..< 5]"
    have len: "length idxs = 5" by (simp add: idxs_def)
    have rng: "\<forall>i \<in> set idxs. i + 2 \<le> length ?tr"
    proof
      fix i assume "i \<in> set idxs"
      then obtain k where "i = rand e k mod (length ?tr - 1)"
        unfolding idxs_def by auto
      moreover have "rand e k mod (length ?tr - 1) < length ?tr - 1"
        using big by (intro mod_less_divisor) simp
      ultimately show "i + 2 \<le> length ?tr" by simp
    qed
    then have inr: "\<forall>i \<in> set idxs. i < length ?tr" by auto
    have di: "debug_indices ?tr (rand e) = Inr (map int idxs)"
      using big unfolding idxs_def by (simp add: debug_indices_large comp_def)
    have sel: "select ?tr (map int idxs) = Inr (map ((!) ?tr) idxs)"
      using inr by (rule select_in_range)
    have pre: "prelude cfg cli e =
        ([LoadTokenizer, PrepareDataset, CheckDatasetLabels (map ((!) ?tr) idxs)],
         Inr (Some (prepared e)))"
      using assms by (simp add: prelude_def di sel)
    have "take 3 (fst (train cfg cli e)) =
        [LoadTokenizer, PrepareDataset, CheckDatasetLabels (map ((!) ?tr) idxs)]"
      by (simp add: train_def pre after_def)
    with len rng show "\<exists>idxs. length idxs = 5 \<and>
               (\<forall>i \<in> set idxs. i + 2 \<le> length ?tr) \<and>
               take 3 (fst (train cfg cli e)) =
                 [LoadTokenizer, PrepareDataset, CheckDatasetLabels (map ((!) ?tr) idxs)]"
      by blast
  }
  {
    fix tr ev n
    assume "SetupTrainer tr ev n \<in> set (fst (train cfg cli e))"
    then show "(tr, ev, n) = prepared e" by (rule setup_trainer_bundle)
  }
qed

lemma upt_0_5: "[0 ..< 5] = [0, 1, 2, 3, 4 :: nat]"
  by code_simp

lemma debug_indices_quiet: "debug_indices [10, 11, 12] (\<lambda>i. 7 * i + 3) = Inr [1, 0, 1, 0, 1]"
  by (simp add: debug_indices_def randrange_def upt_0_5)

lemma select_quiet: "select [10, 11, 12] [1, 0, 1, 0, 1] = Inr [11, 10, 11, 10, 11]"
  by (simp add: select_def)

lemma prelude_quiet:
  "prelude plain_cfg (default_cli_args\<lparr>debug := True\<rparr>) quiet_env =
     ([LoadTokenizer, PrepareDataset, CheckDatasetLabels [11, 10, 11, 10, 11]],
      Inr (Some ([10, 11, 12], [20], 10)))"
  by (simp add: prelude_def plain_cfg_def default_cli_args_def quiet_env_def
      debug_indices_quiet select_quiet)

lemma debug_run_trace:
  "take 3 (fst (train plain_cfg (default_cli_args\<lparr>debug := True\<rparr>) quiet_env)) =
     [LoadTokenizer, PrepareDataset, CheckDatasetLabels [11, 10, 11, 10, 11]]"
  by (simp add: train_def prelude_quiet after_def)

theorem debug_label_inspection_witness:
  "train plain_cfg (default_cli_args\<lparr>debug := True\<rparr>)
      (quiet_env\<lparr>prepared := ([10], [20], 10)\<rparr>) =
     ([LoadTokenizer, PrepareDataset], Raised ValueError) \<and>
   (\<exists>idxs. length idxs = 5 \<and> list_all (\<lambda>i. i + 2 \<le> 3) idxs \<and>
      take 3 (fst (train plain_cfg (default_cli_args\<lparr>debug := True\<rparr>) quiet_env)) =
        [LoadTokenizer, PrepareDataset, CheckDatasetLabels (map ((!) [10, 11, 12]) idxs)]) \<and>
   take 3 (fst (train plain_cfg (default_cli_args\<lparr>debug := True\<rparr>) quiet_env)) =
     [LoadTokenizer, PrepareDataset, CheckDatasetLabels [11, 10, 11, 10, 11]]"
proof (intro conjI)
  show "train plain_cfg (default_cli_args\<lparr>debug := True\<rparr>)
      (quiet_env\<lparr>prepared := ([10], [20], 10)\<rparr>) =
     ([LoadTokenizer, PrepareDataset], Raised ValueError)"
    using debug_label_inspection [of "default_cli_args\<lparr>debug := True\<rparr>" plain_cfg
      "quiet_env\<lparr>prepared := ([10], [20], 10)\<rparr>"]
    by (simp add: default_cli_args_def)
  show "\<exists>idxs. length idxs = 5 \<and> list_all (\<lambda>i. i + 2 \<le> 3) idxs \<and>
      take 3 (fst (train plain_cfg (default_cli_args\<lparr>debug := True\<rparr>) quiet_env)) =
        [LoadTokenizer, PrepareDataset, CheckDatasetLabels (map ((!) [10, 11, 12]) idxs)]"
    using debug_label_inspection [of "default_cli_args\<lparr>debug := True\<rparr>" plain_cfg quiet_env]
    by (simp add: default_cli_args_def quiet_env_def list_all_iff)
  show "take 3 (fst (train plain_cfg (default_cli_args\<lparr>debug := True\<rparr>) quiet_env)) =
     [LoadTokenizer, PrepareDataset, CheckDatasetLabels [11, 10, 11, 10, 11]]"
    by (rule debug_run_trace)
qed

section \<open>Checkpoint auto-resume\<close>

lemma sorted_last_max:
  fixes xs :: "int list"
  assumes "sorted xs" and "x \<in> set xs"
  shows "x \<le> last xs"
  using assms by (induction xs) auto

lemma zip_map_self: "zip (map g xs) xs = map (\<lambda>x. (g x, x)) xs"
  by (induction xs) simp_all

lemma collect_keys_ok:
  "\<forall>p \<in> set paths. checkpoint_step p \<noteq> None \<Longrightarrow>
     collect (map checkpoint_key paths) = Inr (map (\<lambda>p. the (checkpoint_step p)) paths)"
  by (induction paths) (auto simp: checkpoint_key_def)

lemma collect_keys_fail:
  "\<exists>p \<in> set paths. checkpoint_step p = None \<Longrightarrow>
     collect (map checkpoint_key paths) = Inl ValueError"
proof (induction paths)
  case Nil
  then show ?case by simp
next
  case (Cons a paths)
  show ?case
  proof (cases "checkpoint_step a")
    case None
    then show ?thesis by (simp add: checkpoint_key_def)
  next
    case (Some n)
    with Cons.prems have "\<exists>p \<in> set paths. checkpoint_step p = None" by auto
    then have "collect (map checkpoint_key paths) = Inl ValueError" by (rule Cons.IH)
    moreover from Some have "checkpoint_key a = Inr n" by (simp add: checkpoint_key_def)
    ultimately show ?thesis by simp
  qed
qed

lemma sorted_by_step_last:
  assumes ne: "paths \<noteq> []"
    and ok: "\<forall>p \<in> set paths. checkpoint_step p \<noteq> None"
  shows "\<exists>sorted_paths. sorted_by_step paths = Inr sorted_paths \<and>
           last sorted_paths \<in> set paths \<and>
           (\<forall>q \<in> set paths.
              the (checkpoint_step q) \<le> the (checkpoint_step (last sorted_paths)))"
proof -
  define g where "g = (\<lambda>p. the (checkpoint_step p))"
  define zs where "zs = sort_key fst (map (\<lambda>p. (g p, p)) paths)"
  have sbs: "sorted_by_step paths = Inr (map snd zs)"
    using ok by (simp add: sorted_by_step_def collect_keys_ok zip_map_self zs_def g_def)
  have set_zs: "set zs = (\<lambda>p. (g p, p)) ` set paths"
    by (simp add: zs_def)
  have zs_ne: "zs \<noteq> []"
    using ne set_zs by (metis empty_is_image set_empty)
  then have "last zs \<in> set zs" by simp
  then obtain p where p: "p \<in> set paths" and lz: "last zs = (g p, p)"
    using set_zs by auto
  have lp: "last (map snd zs) = p"
    using zs_ne lz by (simp add: last_map)
  have srt: "sorted (map fst zs)"
    unfolding zs_def by (rule sorted_sort_key)
  have mx: "g q \<le> g p" if "q \<in> set paths" for q
  proof -
    from that have "(g q, q) \<in> set zs" using set_zs by auto
    then have "g q \<in> set (map fst zs)" by force
    with srt have "g q \<le> last (map fst zs)" by (rule sorted_last_max)
    also have "last (map fst zs) = g p" using zs_ne lz by (simp add: last_map)
    finally show ?thesis .
  qed
  show ?thesis
    using sbs lp p mx by (auto simp: g_def)
qed

text \<open>
  C6, as the code has it. An explicitly configured checkpoint is the resume target
  whatever the output directory holds. Without one, discovery runs only when
  auto-resume is enabled; with no \<open>checkpoint-*\<close> entry the target stays unset; when
  the text after the last \<open>-\<close> of every entry is a number for \<open>int\<close>, the target is
  an entry of the listing whose number is maximal; and when some entry's is not, the
  \<open>ValueError\<close> of \<open>int\<close> is raised.
\<close>

theorem checkpoint_resolution:
  "(resume_from_checkpoint cfg \<noteq> None \<longrightarrow>
      resolve_checkpoint cfg cps = Inr (resume_from_checkpoint cfg)) \<and>
   (resume_from_checkpoint cfg = None \<and> \<not> auto_resume_from_checkpoints cfg \<longrightarrow>
      resolve_checkpoint cfg cps = Inr None) \<and>
   (resume_from_checkpoint cfg = None \<and> auto_resume_from_checkpoints cfg \<longrightarrow>
      (cps = [] \<longrightarrow> resolve_checkpoint cfg cps = Inr None) \<and>
      (cps \<noteq> [] \<and> (\<forall>p \<in> set cps. checkpoint_step p \<noteq> None) \<longrightarrow>
         (\<exists>p \<in> set cps. resolve_checkpoint cfg cps = Inr (Some p) \<and>
            (\<forall>q \<in> set cps. the (checkpoint_step q) \<le> the (checkpoint_step p)))) \<and>
      ((\<exists>p \<in> set cps. checkpoint_step p = None) \<longrightarrow>
         resolve_checkpoint cfg cps = Inl ValueError))"
proof (intro conjI impI)
  assume "resume_from_checkpoint cfg \<noteq> None"
  then show "resolve_checkpoint cfg cps = Inr (resume_from_checkpoint cfg)"
    by (auto simp: resolve_checkpoint_def)
next
  assume "resume_from_checkpoint cfg = None \<and> \<not> auto_resume_from_checkpoints cfg"
  then show "resolve_checkpoint cfg cps = Inr None"
    by (simp add: resolve_checkpoint_def)
next
  assume "resume_from_checkpoint cfg = None \<and> auto_resume_from_checkpoints cfg" and "cps = []"
  then show "resolve_checkpoint cfg cps = Inr None"
    by (simp add: resolve_checkpoint_def)
next
  assume auto: "resume_from_checkpoint cfg = None \<and> auto_resume_from_checkpoints cfg"
    and ok: "cps \<noteq> [] \<and> (\<forall>p \<in> set cps. checkpoint_step p \<noteq> None)"
  then obtain sorted_paths where sp: "sorted_by_step cps = Inr sorted_paths"
    and mem: "last sorted_paths \<in> set cps"
    and mx: "\<forall>q \<in> set cps. the (checkpoint_step q) \<le> the (checkpoint_step (last sorted_paths))"
    using sorted_by_step_last [of cps] by blast
  from auto ok sp have "resolve_checkpoint cfg cps = Inr (Some (last sorted_paths))"
    by (simp add: resolve_checkpoint_def)
  with mem mx show "\<exists>p \<in> set cps. resolve_checkpoint cfg cps = Inr (Some p) \<and>
            (\<forall>q \<in> set cps. the (checkpoint_step q) \<le> the (checkpoint_step p))"
    by blast
next
  assume auto: "resume_from_checkpoint cfg = None \<and> auto_resume_from_checkpoints cfg"
    and bad: "\<exists>p \<in> set cps. checkpoint_step p = None"
  then have "cps \<noteq> []" by auto
  moreover from bad have "sorted_by_step cps = Inl ValueError"
    by (simp add: sorted_by_step_def collect_keys_fail)
  ultimately show "resolve_checkpoint cfg cps = Inl ValueError"
    using auto by (simp add: resolve_checkpoint_def)
qed

lemma split_on_no_sep: "sep \<notin> set s \<Longrightarrow> split_on sep s = [s]"
  by (induction s) auto

lemma split_on_with_sep: "sep \<in> set s \<Longrightarrow> tl (split_on sep s) \<noteq> []"
proof (induction s)
  case Nil
  then show ?case by simp
next
  case (Cons c cs)
  show ?case
  proof (cases "sep \<in> set cs")
    case True
    with Cons.IH show ?thesis by auto
  next
    case False
    with Cons.prems have "c = sep" by simp
    with False show ?thesis by (simp add: split_on_no_sep)
  qed
qed

lemma last_split_on:
  "last (split_on sep (c # cs)) =
     (if sep \<in> set cs then last (split_on sep cs) else if c = sep then cs else c # cs)"
proof (cases "sep \<in> set cs")
  case True
  then have "tl (split_on sep cs) \<noteq> []" by (rule split_on_with_sep)
  then obtain x y ys where "split_on sep cs = x # y # ys"
    by (cases "split_on sep cs") (auto simp: neq_Nil_conv)
  with True show ?thesis by simp
next
  case False
  then show ?thesis by (simp add: split_on_no_sep)
qed

lemmas int_of_text =
  checkpoint_step_def last_split_on py_int_def strip_def is_space_def digits_value_def
  digit_of_def

lemma checkpoint_step_5: "checkpoint_step ''out/checkpoint-5'' = Some 5"
  by (simp add: int_of_text del: split_on.simps)

lemma checkpoint_step_20: "checkpoint_step ''out/checkpoint-20'' = Some 20"
  by (simp add: int_of_text del: split_on.simps)

lemma checkpoint_step_3: "checkpoint_step ''out/checkpoint-3'' = Some 3"
  by (simp add: int_of_text del: split_on.simps)

lemma checkpoint_step_final: "checkpoint_step ''out/checkpoint-final'' = None"
  by (simp add: int_of_text del: split_on.simps)

theorem checkpoint_resolution_witness:
  "resolve_checkpoint (plain_cfg\<lparr>auto_resume_from_checkpoints := True\<rparr>)
      [''out/checkpoint-5'', ''out/checkpoint-20'', ''out/checkpoint-3''] =
     Inr (Some ''out/checkpoint-20'') \<and>
   resolve_checkpoint (plain_cfg\<lparr>auto_resume_from_checkpoints := True\<rparr>) [] = Inr None \<and>
   resolve_checkpoint plain_cfg [''out/checkpoint-5''] = Inr None \<and>
   resolve_checkpoint
      (plain_cfg\<lparr>auto_resume_from_checkpoints := True, resume_from_checkpoint := Some ''ckpt''\<rparr>)
      [''out/checkpoint-5''] = Inr (Some ''ckpt'')"
proof (intro conjI)
  show "resolve_checkpoint (plain_cfg\<lparr>auto_resume_from_checkpoints := True\<rparr>)
      [''out/checkpoint-5'', ''out/checkpoint-20'', ''out/checkpoint-3''] =
     Inr (Some ''out/checkpoint-20'')"
    using checkpoint_resolution [of "plain_cfg\<lparr>auto_resume_from_checkpoints := True\<rparr>"
        "[''out/checkpoint-5'', ''out/checkpoint-20'', ''out/checkpoint-3'']"]
    by (simp add: plain_cfg_def checkpoint_step_5 checkpoint_step_20 checkpoint_step_3)
  show "resolve_checkpoint (plain_cfg\<lparr>auto_resume_from_checkpoints := True\<rparr>) [] = Inr None"
    using checkpoint_resolution [of "plain_cfg\<lparr>auto_resume_from_checkpoints := True\<rparr>" "[]"]
    by (simp add: plain_cfg_def)
  show "resolve_checkpoint plain_cfg [''out/checkpoint-5''] = Inr None"
    using checkpoint_resolution [of plain_cfg "[''out/checkpoint-5'']"]
    by (simp add: plain_cfg_def)
  show "resolve_checkpoint
      (plain_cfg\<lparr>auto_resume_from_checkpoints := True, resume_from_checkpoint := Some ''ckpt''\<rparr>)
      [''out/checkpoint-5''] = Inr (Some ''ckpt'')"
    using checkpoint_resolution
      [of "plain_cfg\<lparr>auto_resume_from_checkpoints := True, resume_from_checkpoint := Some ''ckpt''\<rparr>"
        "[''out/checkpoint-5'']"]
    by simp
qed

text \<open>
  An entry that matches \<open>checkpoint-*\<close> without a numeric suffix is not skipped: the
  sort key raises, and the run ends before the trainer is set up.
\<close>

theorem non_numeric_checkpoint_raises:
  "resolve_checkpoint (plain_cfg\<lparr>auto_resume_from_checkpoints := True\<rparr>)
      [''out/checkpoint-5'', ''out/checkpoint-final''] = Inl ValueError \<and>
   train (plain_cfg\<lparr>auto_resume_from_checkpoints := True\<rparr>) default_cli_args
      (quiet_env\<lparr>checkpoints := [''out/checkpoint-5'', ''out/checkpoint-final'']\<rparr>) =
     ([LoadTokenizer, PrepareDataset, LoadModel False], Raised ValueError)"
proof -
  have r: "resolve_checkpoint (plain_cfg\<lparr>auto_resume_from_checkpoints := True\<rparr>)
      [''out/checkpoint-5'', ''out/checkpoint-final''] = Inl ValueError"
    by (simp add: resolve_checkpoint_def sorted_by_step_def checkpoint_key_def plain_cfg_def
        checkpoint_step_5 checkpoint_step_final)
  have "train (plain_cfg\<lparr>auto_resume_from_checkpoints := True\<rparr>) default_cli_args
      (quiet_env\<lparr>checkpoints := [''out/checkpoint-5'', ''out/checkpoint-final'']\<rparr>) =
     ([LoadTokenizer, PrepareDataset, LoadModel False], Raised ValueError)"
    by (simp add: train_def prelude_def train_branch_def after_def Let_def default_cli_args_def
        quiet_env_def plain_cfg_def resolve_checkpoint_def sorted_by_step_def checkpoint_key_def
        checkpoint_step_5 checkpoint_step_final)
  with r show ?thesis by simp
qed

end
